theory Spec2Isabelle
  imports Complex_Main
begin

section \<open>JavaScript values\<close>

text \<open>
  ButtonStim.js is dynamically typed: every constructor option may hold any value, and the
  constructor inspects one of them with \<^verbatim>\<open>typeof\<close>.  Values are a datatype; objects
  and functions that the file only passes on are opaque references.  Numbers are only
  passed through (the one numeric literal of the file is the default border width 0).
\<close>

datatype jsval =
    JUndefined
  | JNull
  | JBoolean bool
  | JNumber real
  | JString string
  | JArray "jsval list"
  | JObject nat
  | JFunction nat

datatype error = TypeError | Thrown string

fun typeof :: "jsval \<Rightarrow> string" where
  "typeof JUndefined = ''undefined''"
| "typeof JNull = ''object''"
| "typeof (JBoolean b) = ''boolean''"
| "typeof (JNumber x) = ''number''"
| "typeof (JString s) = ''string''"
| "typeof (JArray xs) = ''object''"
| "typeof (JObject r) = ''object''"
| "typeof (JFunction r) = ''function''"

text \<open>Truthiness, as tested by \<^verbatim>\<open>if (...)\<close> and by \<^verbatim>\<open>c ? a : b\<close>.\<close>

fun truthy :: "jsval \<Rightarrow> bool" where
  "truthy JUndefined = False"
| "truthy JNull = False"
| "truthy (JBoolean b) = b"
| "truthy (JNumber x) = (x \<noteq> 0)"
| "truthy (JString s) = (s \<noteq> [])"
| "truthy (JArray xs) = True"
| "truthy (JObject r) = True"
| "truthy (JFunction r) = True"

subsection \<open>String.prototype.includes\<close>

fun startsWith :: "string \<Rightarrow> string \<Rightarrow> bool" where
  "startsWith s [] = True"
| "startsWith [] (c # cs) = False"
| "startsWith (x # xs) (c # cs) = (x = c \<and> startsWith xs cs)"

fun includes_str :: "string \<Rightarrow> string \<Rightarrow> bool" where
  "includes_str [] sub = (sub = [])"
| "includes_str (x # xs) sub = (startsWith (x # xs) sub \<or> includes_str xs sub)"

text \<open>
  The method call \<^verbatim>\<open>v.includes(sub)\<close> on an arbitrary value: strings search for a
  substring, arrays for an element, and every other value has no such method, so the call
  raises a TypeError.
\<close>

fun call_includes :: "jsval \<Rightarrow> string \<Rightarrow> error + jsval" where
  "call_includes (JString s) sub = Inr (JBoolean (includes_str s sub))"
| "call_includes (JArray xs) sub = Inr (JBoolean (List.member xs (JString sub)))"
| "call_includes v sub = Inl TypeError"

subsection \<open>Object literals and destructuring\<close>

text \<open>
  An options object is a finite map from property names to values.  Reading a property
  that is absent yields \<^verbatim>\<open>undefined\<close>; a destructuring default applies exactly when
  the value read is \<^verbatim>\<open>undefined\<close>.
\<close>

type_synonym js_object = "string \<rightharpoonup> jsval"

definition get :: "js_object \<Rightarrow> string \<Rightarrow> jsval" where
  "get ob k = (case ob k of None \<Rightarrow> JUndefined | Some v \<Rightarrow> v)"

definition or_default :: "jsval \<Rightarrow> jsval \<Rightarrow> jsval" where
  "or_default v d = (if v = JUndefined then d else v)"

section \<open>The constructor's parameter\<close>

text \<open>
  The bindings introduced by the destructuring pattern of the constructor (lines 42-67).
  \<open>text_arg\<close> and \<open>size_arg\<close> are the source's \<^verbatim>\<open>text\<close> and \<^verbatim>\<open>size\<close>.
\<close>

record bindings =
  win :: jsval
  name :: jsval
  text_arg :: jsval
  font :: jsval
  pos :: jsval
  size_arg :: jsval
  padding :: jsval
  anchor :: jsval
  units :: jsval
  color :: jsval
  fillColor :: jsval
  borderColor :: jsval
  borderWidth :: jsval
  opacity :: jsval
  depth :: jsval
  letterHeight :: jsval
  bold :: jsval
  italic :: jsval
  autoDraw :: jsval
  autoLog :: jsval
  boxFn :: jsval
  multiline :: jsval

text \<open>
  \<open>None\<close> is a call without argument (or with \<^verbatim>\<open>undefined\<close>), for which the
  pattern's own default \<^verbatim>\<open>= {}\<close> applies.
\<close>

definition given_object :: "js_object option \<Rightarrow> js_object" where
  "given_object arg = (case arg of None \<Rightarrow> Map.empty | Some ob \<Rightarrow> ob)"

definition destructure :: "js_object option \<Rightarrow> bindings" where
  "destructure arg =
     (let ob = given_object arg in
      \<lparr> win = get ob ''win'',
        name = get ob ''name'',
        text_arg = get ob ''text'',
        font = get ob ''font'',
        pos = get ob ''pos'',
        size_arg = get ob ''size'',
        padding = get ob ''padding'',
        anchor = or_default (get ob ''anchor'') (JString ''center''),
        units = get ob ''units'',
        color = get ob ''color'',
        fillColor = or_default (get ob ''fillColor'') (JString ''darkgrey''),
        borderColor = get ob ''borderColor'',
        borderWidth = or_default (get ob ''borderWidth'') (JNumber 0),
        opacity = get ob ''opacity'',
        depth = get ob ''depth'',
        letterHeight = get ob ''letterHeight'',
        bold = or_default (get ob ''bold'') (JBoolean True),
        italic = get ob ''italic'',
        autoDraw = get ob ''autoDraw'',
        autoLog = get ob ''autoLog'',
        boxFn = get ob ''boxFn'',
        multiline = get ob ''multiline'' \<rparr>)"

text \<open>The object literal handed to the TextBox constructor (lines 69-94).\<close>

definition super_options :: "bindings \<Rightarrow> js_object" where
  "super_options b =
     [ ''win'' \<mapsto> win b,
       ''name'' \<mapsto> name b,
       ''text'' \<mapsto> text_arg b,
       ''placeholder'' \<mapsto> text_arg b,
       ''font'' \<mapsto> font b,
       ''pos'' \<mapsto> pos b,
       ''size'' \<mapsto> size_arg b,
       ''padding'' \<mapsto> padding b,
       ''anchor'' \<mapsto> anchor b,
       ''units'' \<mapsto> units b,
       ''color'' \<mapsto> color b,
       ''fillColor'' \<mapsto> fillColor b,
       ''borderColor'' \<mapsto> borderColor b,
       ''borderWidth'' \<mapsto> borderWidth b,
       ''opacity'' \<mapsto> opacity b,
       ''depth'' \<mapsto> depth b,
       ''letterHeight'' \<mapsto> letterHeight b,
       ''multiline'' \<mapsto> multiline b,
       ''bold'' \<mapsto> bold b,
       ''italic'' \<mapsto> italic b,
       ''alignment'' \<mapsto> JString ''center'',
       ''autoDraw'' \<mapsto> autoDraw b,
       ''autoLog'' \<mapsto> autoLog b,
       ''boxFn'' \<mapsto> boxFn b ]"

text \<open>The object literal handed to the Mouse constructor (line 122).\<close>

definition listener_options :: "bindings \<Rightarrow> js_object" where
  "listener_options b = [ ''name'' \<mapsto> name b, ''win'' \<mapsto> win b, ''autoLog'' \<mapsto> autoLog b ]"

section \<open>The collaborators: TextBox, Mouse, util\<close>

text \<open>
  ButtonStim extends TextBox, whose source (TextBox.js) is not at hand.  The part of the
  object that the TextBox constructor builds is a record: the three attributes that
  ButtonStim.js reads or writes (\<^verbatim>\<open>this.name\<close>, \<^verbatim>\<open>this._autoLog\<close>,
  \<^verbatim>\<open>this._multiline\<close>) and an opaque remainder \<open>rest\<close> (text, geometry, styling).
\<close>

record 'r TextBox =
  this_name :: string
  this_autoLog :: jsval
  this_multiline :: jsval
  rest :: 'r

text \<open>
  Modelled from the spec: the class Mouse (core/Mouse.js) is missing.  The spec's
  PointerListener is constructed "bound to the same name/surface and logging flag", so the
  listener is the record of these three bindings.
\<close>

record Mouse =
  bound_name :: jsval
  bound_win :: jsval
  bound_autoLog :: jsval

text \<open>
  Modelled from the spec: the constructor of the missing class Mouse, which binds the
  listener to the name, the window and the logging flag of the options it is given.
\<close>

definition Mouse_constructor :: "js_object \<Rightarrow> Mouse" where
  "Mouse_constructor ob =
     \<lparr> bound_name = get ob ''name'', bound_win = get ob ''win'', bound_autoLog = get ob ''autoLog'' \<rparr>"

text \<open>
  Modelled from the spec: the pointer state that the missing listener "continuously
  tracks": "pointer position/button state".  \<open>pressed\<close> holds one flag per button, in the
  order primary, secondary, tertiary.
\<close>

record pointer =
  pressed :: "bool list"
  position :: "real \<times> real"

section \<open>The ButtonStim object\<close>

text \<open>
  The attributes declared with \<^verbatim>\<open>_addAttribute\<close> (lines 124-138) and the field
  \<^verbatim>\<open>this.listener\<close> (line 122), next to the inherited part.  Time stamps are values of
  the experiment clock; the file stores them and never computes with them.
\<close>

record 'r ButtonStim =
  inherited :: "'r TextBox"
  listener :: Mouse
  wasClicked :: bool
  timesOn :: "real list"
  timesOff :: "real list"

text \<open>
  The code of the repository that ButtonStim.js calls and that is not at hand, taken as
  parameters: the TextBox constructor (which may throw), \<^verbatim>\<open>TextBox.prototype.reset\<close>,
  the hit test of the stimulus (\<^verbatim>\<open>contains\<close>) and \<^verbatim>\<open>util.toString\<close>.  The methods
  of TextBox act on the inherited part of the object.
\<close>

record 'r externals =
  TextBox_constructor :: "js_object \<Rightarrow> error + 'r TextBox"
  TextBox_reset :: "'r TextBox \<Rightarrow> 'r TextBox"
  TextBox_contains :: "'r TextBox \<Rightarrow> real \<times> real \<Rightarrow> bool"
  util_toString :: "'r ButtonStim \<Rightarrow> string"

text \<open>
  Modelled from the spec: \<^verbatim>\<open>Mouse.prototype.isPressedIn\<close> is missing.  The spec's
  listener "answers: is button B currently pressed while the pointer is over stimulus S";
  the button argument selects the buttons asked about by its non-zero entries, so that
  \<^verbatim>\<open>[1, 0, 0]\<close> asks about "the primary button (and not the secondary or tertiary
  buttons)".
\<close>

definition isPressedIn :: "'r externals \<Rightarrow> pointer \<Rightarrow> Mouse \<Rightarrow> 'r ButtonStim \<Rightarrow> nat list \<Rightarrow> bool" where
  "isPressedIn E ptr m shape buttons =
     (list_ex (\<lambda>(wanted, down). wanted \<noteq> 0 \<and> down) (zip buttons (pressed ptr))
      \<and> TextBox_contains E (inherited shape) (position ptr))"

subsection \<open>Construction (lines 42-144)\<close>

datatype log_record = Debug string jsval | Exp string

text \<open>
  Line 98: \<^verbatim>\<open>typeof text === 'string' && text.includes('\n') ? true : false\<close>.  The
  conjunction is short-circuit: \<^verbatim>\<open>includes\<close> is called only on a string.
\<close>

definition derive_multiline :: "jsval \<Rightarrow> error + bool" where
  "derive_multiline txt =
     (case (if typeof txt = ''string'' then call_includes txt [CHR 0x0A]
            else Inr (JBoolean False)) of
        Inl e \<Rightarrow> Inl e
      | Inr c \<Rightarrow> Inr (if truthy c then True else False))"

text \<open>
  The constructor returns the new object and the records it sent to the two loggers, or
  the error thrown on the way.
\<close>

definition ButtonStim_constructor ::
    "'r externals \<Rightarrow> js_object option \<Rightarrow> error + 'r ButtonStim \<times> log_record list" where
  "ButtonStim_constructor E arg =
     (let b = destructure arg in
      case TextBox_constructor E (super_options b) of
        Inl e \<Rightarrow> Inl e
      | Inr tb \<Rightarrow>
          (case derive_multiline (text_arg b) of
             Inl e \<Rightarrow> Inl e
           | Inr ml \<Rightarrow>
               (let tb1 = tb\<lparr>this_multiline := JBoolean ml\<rparr>;
                    log1 = [Debug ''create a new Button with name: '' (name b)];
                    this = \<lparr> inherited = tb1,
                             listener = Mouse_constructor (listener_options b),
                             wasClicked = False,
                             timesOn = [],
                             timesOff = [] \<rparr>;
                    log2 = (if truthy (this_autoLog tb1)
                            then log1 @ [Exp (''Created '' @ this_name tb1 @ '' = ''
                                              @ util_toString E this)]
                            else log1)
                in Inr (this, log2))))"

subsection \<open>Accessors and reset (lines 151-179)\<close>

definition numClicks :: "'r ButtonStim \<Rightarrow> nat" where
  "numClicks this = length (timesOn this)"

definition isClicked :: "'r externals \<Rightarrow> pointer \<Rightarrow> 'r ButtonStim \<Rightarrow> bool" where
  "isClicked E ptr this = isPressedIn E ptr (listener this) this [1, 0, 0]"

text \<open>\<^verbatim>\<open>super.reset()\<close>: the reset of TextBox, on the inherited part of the object.\<close>

definition super_reset :: "'r externals \<Rightarrow> 'r ButtonStim \<Rightarrow> 'r ButtonStim" where
  "super_reset E this = this\<lparr>inherited := TextBox_reset E (inherited this)\<rparr>"

definition reset :: "'r externals \<Rightarrow> pointer \<Rightarrow> 'r ButtonStim \<Rightarrow> 'r ButtonStim" where
  "reset E ptr this =
     (let this1 = this\<lparr>wasClicked := isClicked E ptr this\<rparr>;
          this2 = this1\<lparr>timesOn := []\<rparr>;
          this3 = this2\<lparr>timesOff := []\<rparr>
      in super_reset E this3)"

text \<open>
  The exposed members as one interface: reading a property or calling the method yields
  an answer and the object as the access leaves it.
\<close>

datatype member = NumClicks | IsClicked | Reset

datatype answer = Count nat | Truth bool | Void

fun invoke :: "'r externals \<Rightarrow> pointer \<Rightarrow> member \<Rightarrow> 'r ButtonStim \<Rightarrow> answer \<times> 'r ButtonStim" where
  "invoke E ptr NumClicks this = (Count (numClicks this), this)"
| "invoke E ptr IsClicked this = (Truth (isClicked E ptr this), this)"
| "invoke E ptr Reset this = (Void, reset E ptr this)"

section \<open>The frame-update path\<close>

text \<open>
  Modelled from the spec: the code that appends to \<^verbatim>\<open>timesOn\<close> and \<^verbatim>\<open>timesOff\<close> is
  not in ButtonStim.js.  The spec describes it as "the frame-loop driver that polls the
  listener every frame and performs edge detection, appending timestamps on transition",
  and gives each control the states IDLE and PRESSED.  The driver's state is the control
  and the press state it has detected last.
\<close>

datatype press_state = IDLE | PRESSED

record 'r frame_loop =
  control :: "'r ButtonStim"
  state :: press_state

text \<open>
  Modelled from the spec: one frame of the missing driver, which polls the listener at the
  clock time \<open>t\<close>.  The spec's state machine is "transition IDLE -> PRESSED on
  pointer-down-over-control appends to timesOn; transition PRESSED -> IDLE on pointer-up
  (anywhere, or specifically over-control per listener semantics) appends to timesOff",
  and the spec adds that "a release cannot be recorded without a prior unmatched press":
  on the transition to IDLE the time is appended to \<^verbatim>\<open>timesOff\<close> only if \<^verbatim>\<open>timesOn\<close>
  holds a press that has no release yet, which is not the case when a reset has emptied
  the lists while the button was held.
\<close>

definition frame_update :: "'r externals \<Rightarrow> pointer \<Rightarrow> real \<Rightarrow> 'r frame_loop \<Rightarrow> 'r frame_loop" where
  "frame_update E ptr t w =
     (let c = control w; now = isClicked E ptr c in
      if state w = IDLE \<and> now
      then w\<lparr>control := c\<lparr>timesOn := timesOn c @ [t]\<rparr>, state := PRESSED\<rparr>
      else if state w = PRESSED \<and> \<not> now
      then (if length (timesOff c) < length (timesOn c)
            then w\<lparr>control := c\<lparr>timesOff := timesOff c @ [t]\<rparr>, state := IDLE\<rparr>
            else w\<lparr>state := IDLE\<rparr>)
      else w)"

text \<open>
  Modelled from the spec: what happens to a control between two observations.  The host
  "each frame may poll isClicked/numClicks; at trial boundaries it calls reset()": an
  event is a frame, with the pointer as sampled and the clock time, or a call of
  \<^verbatim>\<open>reset()\<close> by the experiment script.
\<close>

datatype event = Frame pointer real | ResetCall pointer

text \<open>
  Modelled from the spec: the effect of one event.  "reset() does not change the
  IDLE/PRESSED state itself, only clears history": a reset call runs \<open>reset\<close> on the
  control and leaves the driver's press state.
\<close>

fun step :: "'r externals \<Rightarrow> 'r frame_loop \<Rightarrow> event \<Rightarrow> 'r frame_loop" where
  "step E w (Frame ptr t) = frame_update E ptr t w"
| "step E w (ResetCall ptr) = w\<lparr>control := reset E ptr (control w)\<rparr>"

text \<open>
  Modelled from the spec: a sequence of events, from left to right, and the driver's state
  for a control that has just been constructed (no press seen yet).
\<close>

definition run :: "'r externals \<Rightarrow> event list \<Rightarrow> 'r frame_loop \<Rightarrow> 'r frame_loop" where
  "run E evs w = foldl (step E) w evs"

definition fresh :: "'r ButtonStim \<Rightarrow> 'r frame_loop" where
  "fresh this = \<lparr> control = this, state = IDLE \<rparr>"

text \<open>The clock readings of a run.\<close>

fun stamps :: "event list \<Rightarrow> real list" where
  "stamps [] = []"
| "stamps (Frame ptr t # evs) = t # stamps evs"
| "stamps (ResetCall ptr # evs) = stamps evs"

text \<open>
  Two notions for reasoning about a run: the pairing of presses and releases (every
  release has its press, at most one press is without release, and none is while the
  driver is in the state IDLE), and the set of all recorded times.
\<close>

definition paired :: "'r frame_loop \<Rightarrow> bool" where
  "paired w =
     (length (timesOff (control w)) \<le> length (timesOn (control w))
      \<and> length (timesOn (control w)) \<le> length (timesOff (control w)) + 1
      \<and> (state w = PRESSED \<or> length (timesOn (control w)) = length (timesOff (control w))))"

definition recorded :: "'r frame_loop \<Rightarrow> real set" where
  "recorded w = set (timesOn (control w)) \<union> set (timesOff (control w))"

section \<open>A small label for concrete inputs\<close>

text \<open>
  An instance of the collaborators on which the model can be evaluated: a label whose hit
  region is the square of half-width \<open>rest\<close> around the origin, whose constructor keeps
  the name, the logging flag and the multiline flag it is given (the latter two with
  default false), and whose reset changes nothing.
\<close>

definition box_label :: "real externals" where
  "box_label =
     \<lparr> TextBox_constructor = (\<lambda>ob. Inr
          \<lparr> this_name = (case get ob ''name'' of JString s \<Rightarrow> s | _ \<Rightarrow> ''TextBox''),
            this_autoLog = or_default (get ob ''autoLog'') (JBoolean False),
            this_multiline = or_default (get ob ''multiline'') (JBoolean False),
            rest = 1 \<rparr>),
       TextBox_reset = (\<lambda>tb. tb),
       TextBox_contains = (\<lambda>tb (x, y). \<bar>x\<bar> \<le> rest tb \<and> \<bar>y\<bar> \<le> rest tb),
       util_toString = (\<lambda>this. ''ButtonStim'') \<rparr>"


definition pointer_up :: pointer where
  "pointer_up = \<lparr> pressed = [False, False, False], position = (0, 0) \<rparr>"

definition pointer_down :: pointer where
  "pointer_down = \<lparr> pressed = [True, False, False], position = (0, 0) \<rparr>"

text \<open>
  Two constructor arguments: a caption of two lines, given with an alignment and with the
  multiline flag off, and the caption "Click me", given with the multiline flag on; and
  the objects that the constructor builds from them.
\<close>

definition two_lines :: "js_object option" where
  "two_lines = Some [ ''name'' \<mapsto> JString ''go'',
                      ''text'' \<mapsto> JString (''Line1'' @ [CHR 0x0A] @ ''Line2''),
                      ''alignment'' \<mapsto> JString ''left'',
                      ''multiline'' \<mapsto> JBoolean False ]"

definition two_lines_button :: "real ButtonStim" where
  "two_lines_button =
     \<lparr> inherited = \<lparr> this_name = ''go'', this_autoLog = JBoolean False,
                      this_multiline = JBoolean True, rest = 1 \<rparr>,
       listener = \<lparr> bound_name = JString ''go'', bound_win = JUndefined,
                     bound_autoLog = JUndefined \<rparr>,
       wasClicked = False, timesOn = [], timesOff = [] \<rparr>"

definition click_me :: "js_object option" where
  "click_me = Some [ ''text'' \<mapsto> JString ''Click me'', ''multiline'' \<mapsto> JBoolean True ]"

definition click_me_button :: "real ButtonStim" where
  "click_me_button =
     \<lparr> inherited = \<lparr> this_name = ''TextBox'', this_autoLog = JBoolean False,
                      this_multiline = JBoolean False, rest = 1 \<rparr>,
       listener = \<lparr> bound_name = JUndefined, bound_win = JUndefined,
                     bound_autoLog = JUndefined \<rparr>,
       wasClicked = False, timesOn = [], timesOff = [] \<rparr>"

text \<open>A control with some click history.\<close>

definition pressed_button :: "real ButtonStim" where
  "pressed_button = click_me_button\<lparr>timesOn := [1, 4], timesOff := [2]\<rparr>"

text \<open>
  A run of the frame loop: a press, a reset while the button is held, the release, and a
  full click.
\<close>

definition press_reset_release :: "event list" where
  "press_reset_release =
     [Frame pointer_down 1, ResetCall pointer_down, Frame pointer_up 2,
      Frame pointer_down 3, Frame pointer_up 4]"

section \<open>Properties of the string search\<close>

text \<open>
  \<open>includes_str\<close> is substring search, as String.prototype.includes specifies; for a
  needle of one character it is membership.
\<close>

lemma startsWith_iff: "startsWith s sub \<longleftrightarrow> (\<exists>r. s = sub @ r)"
  by (induction s sub rule: startsWith.induct) auto

lemma includes_str_iff: "includes_str s sub \<longleftrightarrow> (\<exists>p r. s = p @ sub @ r)"
proof (induction s)
  case Nil
  then show ?case by simp
next
  case (Cons x xs)
  show ?case
  proof
    assume "includes_str (x # xs) sub"
    then consider "startsWith (x # xs) sub" | "includes_str xs sub" by auto
    then show "\<exists>p r. x # xs = p @ sub @ r"
    proof cases
      case 1
      then obtain r where "x # xs = sub @ r" by (auto simp: startsWith_iff)
      then have "x # xs = [] @ sub @ r" by simp
      then show ?thesis by blast
    next
      case 2
      then obtain p r where "xs = p @ sub @ r" using Cons.IH by blast
      then have "x # xs = (x # p) @ sub @ r" by simp
      then show ?thesis by blast
    qed
  next
    assume "\<exists>p r. x # xs = p @ sub @ r"
    then obtain p r where pr: "x # xs = p @ sub @ r" by blast
    show "includes_str (x # xs) sub"
    proof (cases p)
      case Nil
      with pr have "startsWith (x # xs) sub" by (auto simp: startsWith_iff)
      then show ?thesis by simp
    next
      case (Cons y ys)
      with pr have "xs = ys @ sub @ r" by simp
      then have "includes_str xs sub" using Cons.IH by blast
      then show ?thesis by simp
    qed
  qed
qed

lemma includes_str_char: "includes_str s [c] \<longleftrightarrow> c \<in> set s"
  by (simp add: includes_str_iff split_list_first in_set_conv_decomp)

section \<open>Properties of the constructor\<close>

lemma derive_multiline_eq:
  "derive_multiline v = Inr (\<exists>s. v = JString s \<and> CHR 0x0A \<in> set s)"
  by (cases v) (simp_all add: derive_multiline_def includes_str_char)

lemma constructor_Inr:
  assumes "ButtonStim_constructor E arg = Inr (this, lg)"
  shows "\<exists>tb. TextBox_constructor E (super_options (destructure arg)) = Inr tb
     \<and> this = \<lparr> inherited = tb\<lparr>this_multiline :=
                    JBoolean (\<exists>s. text_arg (destructure arg) = JString s \<and> CHR 0x0A \<in> set s)\<rparr>,
                listener = Mouse_constructor (listener_options (destructure arg)),
                wasClicked = False, timesOn = [], timesOff = [] \<rparr>"
  using assms
  by (auto simp: ButtonStim_constructor_def Let_def derive_multiline_eq split: sum.splits)

lemma constructor_succeeds:
  assumes "TextBox_constructor E (super_options (destructure arg)) = Inr tb"
  shows "\<exists>this lg. ButtonStim_constructor E arg = Inr (this, lg)"
  using assms
  by (simp add: ButtonStim_constructor_def Let_def derive_multiline_eq)

lemma text_arg_destructure: "text_arg (destructure arg) = get (given_object arg) ''text''"
  by (simp add: destructure_def Let_def)

lemmas eval_constructor =
  ButtonStim_constructor_def box_label_def destructure_def given_object_def
  super_options_def listener_options_def Mouse_constructor_def get_def or_default_def
  derive_multiline_def Let_def

lemma two_lines_built:
  "ButtonStim_constructor box_label two_lines =
     Inr (two_lines_button, [Debug ''create a new Button with name: '' (JString ''go'')])"
  by (simp add: eval_constructor two_lines_def two_lines_button_def)

lemma click_me_built:
  "ButtonStim_constructor box_label click_me =
     Inr (click_me_button, [Debug ''create a new Button with name: '' JUndefined])"
  by (simp add: eval_constructor click_me_def click_me_button_def)

lemma get_text_other_flag:
  "get (given_object (Some ((given_object arg)(''multiline'' \<mapsto> f)))) ''text''
     = get (given_object arg) ''text''"
  by (simp add: given_object_def get_def)

lemma two_lines_flag_on_built:
  "ButtonStim_constructor box_label
     (Some ((given_object two_lines)(''multiline'' \<mapsto> JBoolean True))) =
     Inr (two_lines_button, [Debug ''create a new Button with name: '' (JString ''go'')])"
  by (simp add: eval_constructor two_lines_def two_lines_button_def)

text \<open>
  Claim C1.  Whenever the constructor returns an object, its layout mode
  \<^verbatim>\<open>_multiline\<close> is the boolean "the supplied text is a string that contains a line
  break": it is true if and only if the text is such a string.  This holds for every
  TextBox constructor, so for whatever mode that constructor had stored; and the same
  options with any other value of the \<^verbatim>\<open>multiline\<close> flag give the same layout mode.
\<close>
theorem multiline_from_content:
  assumes "ButtonStim_constructor E arg = Inr (this, lg)"
  shows "this_multiline (inherited this) =
           JBoolean (\<exists>s. get (given_object arg) ''text'' = JString s \<and> CHR 0x0A \<in> set s)
     \<and> (\<forall>f this' lg'.
           ButtonStim_constructor E (Some ((given_object arg)(''multiline'' \<mapsto> f)))
             = Inr (this', lg') \<longrightarrow>
           this_multiline (inherited this') = this_multiline (inherited this))"
proof -
  have mode: "this_multiline (inherited this) =
           JBoolean (\<exists>s. get (given_object arg) ''text'' = JString s \<and> CHR 0x0A \<in> set s)"
    using constructor_Inr [OF assms] by (auto simp: text_arg_destructure)
  have other: "this_multiline (inherited this') = this_multiline (inherited this)"
    if "ButtonStim_constructor E (Some ((given_object arg)(''multiline'' \<mapsto> f)))
          = Inr (this', lg')" for f this' lg'
    using constructor_Inr [OF that] mode
    by (auto simp: text_arg_destructure get_text_other_flag)
  from mode other show ?thesis by blast
qed

text \<open>
  At the caption of two lines, given with \<^verbatim>\<open>multiline: false\<close>: the label had stored
  false, the control ends up multiline, as it does with \<^verbatim>\<open>multiline: true\<close>.
\<close>
theorem multiline_from_content_witness:
  "ButtonStim_constructor box_label two_lines =
     Inr (two_lines_button, [Debug ''create a new Button with name: '' (JString ''go'')])
   \<and> get (given_object two_lines) ''multiline'' = JBoolean False
   \<and> this_multiline (inherited two_lines_button) = JBoolean True
   \<and> ButtonStim_constructor box_label
        (Some ((given_object two_lines)(''multiline'' \<mapsto> JBoolean True))) =
        Inr (two_lines_button, [Debug ''create a new Button with name: '' (JString ''go'')])"
  using multiline_from_content [OF two_lines_built] two_lines_built two_lines_flag_on_built
  by (simp add: two_lines_def given_object_def get_def)

text \<open>
  Claim C10.  When the text is omitted or is not a string, the derivation of the layout
  mode returns false without raising, the constructor returns an object whenever the
  TextBox constructor does, and that object is single-line.
\<close>
theorem multiline_guard:
  assumes "typeof (get (given_object arg) ''text'') \<noteq> ''string''"
  shows "derive_multiline (get (given_object arg) ''text'') = Inr False
     \<and> (\<forall>tb. TextBox_constructor E (super_options (destructure arg)) = Inr tb \<longrightarrow>
           (\<exists>this lg. ButtonStim_constructor E arg = Inr (this, lg)
              \<and> this_multiline (inherited this) = JBoolean False))"
proof -
  have no_string: "\<not> (\<exists>s. get (given_object arg) ''text'' = JString s \<and> CHR 0x0A \<in> set s)"
    using assms by auto
  have first: "derive_multiline (get (given_object arg) ''text'') = Inr False"
    using no_string by (simp add: derive_multiline_eq)
  have second: "\<exists>this lg. ButtonStim_constructor E arg = Inr (this, lg)
      \<and> this_multiline (inherited this) = JBoolean False"
    if "TextBox_constructor E (super_options (destructure arg)) = Inr tb" for tb
  proof -
    from constructor_succeeds [OF that] obtain this lg
      where built: "ButtonStim_constructor E arg = Inr (this, lg)" by blast
    from constructor_Inr [OF built] no_string
    have "this_multiline (inherited this) = JBoolean False"
      by (auto simp: text_arg_destructure)
    with built show ?thesis by blast
  qed
  from first second show ?thesis by blast
qed

text \<open>At a call without argument, where the text is \<^verbatim>\<open>undefined\<close>.\<close>
theorem multiline_guard_witness:
  "typeof (get (given_object None) ''text'') \<noteq> ''string''
   \<and> derive_multiline (get (given_object None) ''text'') = Inr False
   \<and> (\<exists>tb. TextBox_constructor box_label (super_options (destructure None)) = Inr tb)
   \<and> (\<exists>this lg. ButtonStim_constructor box_label None = Inr (this, lg)
         \<and> this_multiline (inherited this) = JBoolean False)"
proof -
  have h: "typeof (get (given_object None) ''text'') \<noteq> ''string''"
    by (simp add: given_object_def get_def)
  have tb: "\<exists>tb. TextBox_constructor box_label (super_options (destructure None)) = Inr tb"
    by (simp add: box_label_def)
  from multiline_guard [OF h, of box_label] h tb show ?thesis by blast
qed

text \<open>Without the type check the method call would raise on such values.\<close>
lemma unguarded_includes_raises:
  "call_includes JUndefined [CHR 0x0A] = Inl TypeError"
  "call_includes JNull [CHR 0x0A] = Inl TypeError"
  "call_includes (JNumber x) [CHR 0x0A] = Inl TypeError"
  "call_includes (JBoolean b) [CHR 0x0A] = Inl TypeError"
  by simp_all

text \<open>
  Claim C7.  For every argument of the constructor, the options handed to the TextBox
  constructor have the alignment "center", and the supplied text both as \<^verbatim>\<open>text\<close> and
  as \<^verbatim>\<open>placeholder\<close>; the inherited part of a constructed control is the TextBox built
  from these options (apart from the layout mode, which the constructor overwrites).
\<close>
theorem label_options_forced:
  "super_options (destructure arg) ''alignment'' = Some (JString ''center'')
   \<and> super_options (destructure arg) ''text'' = Some (get (given_object arg) ''text'')
   \<and> super_options (destructure arg) ''placeholder'' = Some (get (given_object arg) ''text'')
   \<and> (\<forall>this lg. ButtonStim_constructor E arg = Inr (this, lg) \<longrightarrow>
         (\<exists>tb. TextBox_constructor E (super_options (destructure arg)) = Inr tb
            \<and> this_name (inherited this) = this_name tb
            \<and> this_autoLog (inherited this) = this_autoLog tb
            \<and> rest (inherited this) = rest tb))"
proof -
  have opts: "super_options (destructure arg) ''alignment'' = Some (JString ''center'')"
    "super_options (destructure arg) ''text'' = Some (get (given_object arg) ''text'')"
    "super_options (destructure arg) ''placeholder'' = Some (get (given_object arg) ''text'')"
    by (simp_all add: super_options_def destructure_def Let_def)
  have built: "\<exists>tb. TextBox_constructor E (super_options (destructure arg)) = Inr tb
            \<and> this_name (inherited this) = this_name tb
            \<and> this_autoLog (inherited this) = this_autoLog tb
            \<and> rest (inherited this) = rest tb"
    if "ButtonStim_constructor E arg = Inr (this, lg)" for this lg
    using constructor_Inr [OF that] by auto
  from opts built show ?thesis by blast
qed

text \<open>At an options object that asks for the alignment "left".\<close>
theorem label_options_forced_witness:
  "get (given_object two_lines) ''alignment'' = JString ''left''
   \<and> super_options (destructure two_lines) ''alignment'' = Some (JString ''center'')
   \<and> ButtonStim_constructor box_label two_lines =
       Inr (two_lines_button, [Debug ''create a new Button with name: '' (JString ''go'')])
   \<and> (\<exists>tb. TextBox_constructor box_label (super_options (destructure two_lines)) = Inr tb
          \<and> rest (inherited two_lines_button) = rest tb)"
proof -
  have given: "get (given_object two_lines) ''alignment'' = JString ''left''"
    by (simp add: two_lines_def given_object_def get_def)
  from label_options_forced [of two_lines box_label] two_lines_built given
  show ?thesis by blast
qed

text \<open>
  Claim C8.  Right after construction \<^verbatim>\<open>wasClicked\<close> is false and \<^verbatim>\<open>timesOn\<close> and
  \<^verbatim>\<open>timesOff\<close> are empty, hence \<^verbatim>\<open>numClicks\<close> is 0.  For the text "Click me" (with
  any other options, the defaults among them) the layout mode is single-line, and
  \<^verbatim>\<open>isClicked\<close> is false as long as no button of the pointer is down, which is the
  situation before any press.
\<close>
theorem construction_initial_state:
  assumes "ButtonStim_constructor E arg = Inr (this, lg)"
  shows "wasClicked this = False \<and> timesOn this = [] \<and> timesOff this = []
     \<and> numClicks this = 0
     \<and> (get (given_object arg) ''text'' = JString ''Click me'' \<longrightarrow>
          this_multiline (inherited this) = JBoolean False
          \<and> (\<forall>ptr. \<not> list_ex (\<lambda>down. down) (pressed ptr) \<longrightarrow> isClicked E ptr this = False))"
proof -
  from constructor_Inr [OF assms]
  have init: "wasClicked this = False" "timesOn this = []" "timesOff this = []"
    by auto
  have count: "numClicks this = 0"
    using init by (simp add: numClicks_def)
  have mode: "this_multiline (inherited this) = JBoolean False"
    if "get (given_object arg) ''text'' = JString ''Click me''"
    using constructor_Inr [OF assms] that by (auto simp: text_arg_destructure)
  have idle: "isClicked E ptr this = False"
    if "\<not> list_ex (\<lambda>down. down) (pressed ptr)" for ptr
    using that by (auto simp: isClicked_def isPressedIn_def list_ex_iff dest: set_zip_rightD)
  from init count mode idle show ?thesis by blast
qed

text \<open>At the caption "Click me" and a pointer with no button down.\<close>
theorem construction_initial_state_witness:
  "ButtonStim_constructor box_label click_me =
     Inr (click_me_button, [Debug ''create a new Button with name: '' JUndefined])
   \<and> get (given_object click_me) ''text'' = JString ''Click me''
   \<and> \<not> list_ex (\<lambda>down. down) (pressed pointer_up)
   \<and> numClicks click_me_button = 0
   \<and> isClicked box_label pointer_up click_me_button = False
   \<and> this_multiline (inherited click_me_button) = JBoolean False"
proof -
  have given: "get (given_object click_me) ''text'' = JString ''Click me''"
    by (simp add: click_me_def given_object_def get_def)
  have up: "\<not> list_ex (\<lambda>down. down) (pressed pointer_up)"
    by (simp add: pointer_up_def)
  from construction_initial_state [OF click_me_built] click_me_built given up
  show ?thesis by blast
qed

section \<open>Properties of the accessors and of reset\<close>

lemma reset_fields:
  "wasClicked (reset E ptr this) = isClicked E ptr this"
  "timesOn (reset E ptr this) = []"
  "timesOff (reset E ptr this) = []"
  "listener (reset E ptr this) = listener this"
  "inherited (reset E ptr this) = TextBox_reset E (inherited this)"
  by (simp_all add: reset_def super_reset_def Let_def)

lemma primary_only:
  "list_ex (\<lambda>(wanted, down). wanted \<noteq> 0 \<and> down) (zip [1, 0, 0 :: nat] ps) = (take 1 ps = [True])"
proof (cases ps)
  case Nil
  then show ?thesis by simp
next
  case (Cons p qs)
  then show ?thesis by (cases qs; cases "tl qs") auto
qed

lemma isClicked_eq:
  "isClicked E ptr this =
     (take 1 (pressed ptr) = [True] \<and> TextBox_contains E (inherited this) (position ptr))"
  by (simp only: isClicked_def isPressedIn_def primary_only)

text \<open>
  Claim C2.  \<^verbatim>\<open>reset()\<close> stores in \<^verbatim>\<open>wasClicked\<close> the value that \<^verbatim>\<open>isClicked\<close> has
  on the object as it is before the call, empties \<^verbatim>\<open>timesOn\<close> and \<^verbatim>\<open>timesOff\<close>, and
  then applies the reset of the label to the object so changed.  It is a total function
  of the object: it returns normally (the answer \<open>Void\<close>) for every state.
\<close>
theorem reset_effect:
  "reset E ptr this =
     super_reset E (this\<lparr>wasClicked := isClicked E ptr this, timesOn := [], timesOff := []\<rparr>)
   \<and> wasClicked (reset E ptr this) = isClicked E ptr this
   \<and> timesOn (reset E ptr this) = []
   \<and> timesOff (reset E ptr this) = []
   \<and> inherited (reset E ptr this) = TextBox_reset E (inherited this)
   \<and> invoke E ptr Reset this = (Void, reset E ptr this)"
proof -
  have "reset E ptr this =
     super_reset E (this\<lparr>wasClicked := isClicked E ptr this, timesOn := [], timesOff := []\<rparr>)"
    by (simp add: reset_def Let_def)
  then show ?thesis by (rule conjI) (simp add: reset_fields)
qed

text \<open>
  Claim C3.  \<^verbatim>\<open>numClicks\<close> is the length of \<^verbatim>\<open>timesOn\<close>, a number that is not
  negative, and reading it leaves the object as it is.
\<close>
theorem numClicks_is_length:
  "numClicks this = length (timesOn this)
   \<and> 0 \<le> int (numClicks this)
   \<and> invoke E ptr NumClicks this = (Count (length (timesOn this)), this)"
  by (simp add: numClicks_def)



text \<open>
  Claim C5.  \<^verbatim>\<open>isClicked\<close> is the listener's answer for this control and the buttons
  \<^verbatim>\<open>[1, 0, 0]\<close>: the primary button is down (the secondary and tertiary buttons are
  not asked about) and the pointer is over the label.  Reading it leaves the object as it
  is; in particular it adds nothing to \<^verbatim>\<open>timesOn\<close> or \<^verbatim>\<open>timesOff\<close>.
\<close>
theorem isClicked_delegates:
  "isClicked E ptr this = isPressedIn E ptr (listener this) this [1, 0, 0]
   \<and> isClicked E ptr this =
       (take 1 (pressed ptr) = [True] \<and> TextBox_contains E (inherited this) (position ptr))
   \<and> invoke E ptr IsClicked this = (Truth (isClicked E ptr this), this)
   \<and> timesOn (snd (invoke E ptr IsClicked this)) = timesOn this
   \<and> timesOff (snd (invoke E ptr IsClicked this)) = timesOff this"
  using isClicked_eq [of E ptr this] by (simp add: isClicked_def)

text \<open>
  Claim C9.  \<^verbatim>\<open>reset()\<close> leaves the listener as it is and changes the inherited part
  only by the label's own reset: the layout mode and the remainder of the label (text,
  styling, geometry) stay whenever the label's reset keeps them, and when the label's reset
  changes nothing the object differs from the one before in \<^verbatim>\<open>wasClicked\<close>,
  \<^verbatim>\<open>timesOn\<close> and \<^verbatim>\<open>timesOff\<close> only.  The answer of the listener for any pointer
  state is the same after the call as before, provided the label's reset keeps the hit
  region at that position.
\<close>
theorem reset_frame:
  "listener (reset E ptr this) = listener this
   \<and> inherited (reset E ptr this) = TextBox_reset E (inherited this)
   \<and> (this_multiline (TextBox_reset E (inherited this)) = this_multiline (inherited this) \<longrightarrow>
        this_multiline (inherited (reset E ptr this)) = this_multiline (inherited this))
   \<and> (rest (TextBox_reset E (inherited this)) = rest (inherited this) \<longrightarrow>
        rest (inherited (reset E ptr this)) = rest (inherited this))
   \<and> (TextBox_reset E (inherited this) = inherited this \<longrightarrow>
        reset E ptr this =
          this\<lparr>wasClicked := isClicked E ptr this, timesOn := [], timesOff := []\<rparr>)
   \<and> (\<forall>q. TextBox_contains E (TextBox_reset E (inherited this)) (position q)
             = TextBox_contains E (inherited this) (position q) \<longrightarrow>
          isClicked E q (reset E ptr this) = isClicked E q this)"
proof -
  have whole: "reset E ptr this =
      this\<lparr>wasClicked := isClicked E ptr this, timesOn := [], timesOff := []\<rparr>"
    if "TextBox_reset E (inherited this) = inherited this"
    using that by (simp add: reset_def super_reset_def Let_def)
  have answer: "isClicked E q (reset E ptr this) = isClicked E q this"
    if "TextBox_contains E (TextBox_reset E (inherited this)) (position q)
          = TextBox_contains E (inherited this) (position q)" for q
    using that by (simp add: isClicked_eq reset_fields)
  from whole answer show ?thesis by (simp add: reset_fields)
qed

text \<open>At the small label, whose reset changes nothing.\<close>
theorem reset_frame_witness:
  "TextBox_reset box_label (inherited pressed_button) = inherited pressed_button
   \<and> this_multiline (inherited (reset box_label pointer_down pressed_button))
       = this_multiline (inherited pressed_button)
   \<and> rest (inherited (reset box_label pointer_down pressed_button))
       = rest (inherited pressed_button)
   \<and> reset box_label pointer_down pressed_button
       = pressed_button\<lparr>wasClicked := isClicked box_label pointer_down pressed_button,
                        timesOn := [], timesOff := []\<rparr>
   \<and> isClicked box_label pointer_down (reset box_label pointer_down pressed_button)
       = isClicked box_label pointer_down pressed_button"
proof -
  have unchanged: "TextBox_reset box_label (inherited pressed_button) = inherited pressed_button"
    by (simp add: box_label_def)
  note frame = reset_frame [of box_label pointer_down pressed_button]
  from frame unchanged
  have mode: "this_multiline (inherited (reset box_label pointer_down pressed_button))
       = this_multiline (inherited pressed_button)"
    and geometry: "rest (inherited (reset box_label pointer_down pressed_button))
       = rest (inherited pressed_button)"
    and whole: "reset box_label pointer_down pressed_button
       = pressed_button\<lparr>wasClicked := isClicked box_label pointer_down pressed_button,
                        timesOn := [], timesOff := []\<rparr>"
    by metis+
  from frame unchanged
  have answer: "isClicked box_label pointer_down (reset box_label pointer_down pressed_button)
       = isClicked box_label pointer_down pressed_button"
    by metis
  from unchanged mode geometry whole answer show ?thesis by blast
qed

section \<open>Properties of the frame-update path\<close>

lemma run_snoc: "run E (evs @ [e]) w = step E (run E evs w) e"
  by (simp add: run_def)

lemma run_Nil: "run E [] w = w"
  by (simp add: run_def)

lemma run_Cons: "run E (e # evs) w = run E evs (step E w e)"
  by (simp add: run_def)

lemma stamps_snoc:
  "stamps (evs @ [e]) = stamps evs @ (case e of Frame ptr t \<Rightarrow> [t] | ResetCall ptr \<Rightarrow> [])"
  by (induction evs rule: stamps.induct) (auto split: event.splits)

lemma paired_frame: "paired w \<Longrightarrow> paired (frame_update E ptr t w)"
  by (cases "state w") (auto simp: paired_def frame_update_def Let_def)

lemma paired_reset: "paired (w\<lparr>control := reset E ptr (control w)\<rparr>)"
proof (cases "state w")
  case IDLE
  then show ?thesis by (simp add: paired_def reset_fields)
next
  case PRESSED
  then show ?thesis by (simp add: paired_def reset_fields)
qed

lemma paired_step: "paired w \<Longrightarrow> paired (step E w e)"
  by (cases e) (simp_all add: paired_frame paired_reset)

lemma paired_run:
  assumes "timesOn this = []" and "timesOff this = []"
  shows "paired (run E evs (fresh this))"
proof (induction evs rule: rev_induct)
  case Nil
  show ?case using assms by (simp add: run_Nil paired_def fresh_def)
next
  case (snoc e evs)
  then show ?case by (simp add: run_snoc paired_step)
qed

lemma sorted_snoc_real: "sorted (xs @ [t]) \<longleftrightarrow> sorted xs \<and> (\<forall>x \<in> set xs. x \<le> (t::real))"
  by (auto simp: sorted_append)

lemma ordered_run:
  assumes "timesOn this = []" and "timesOff this = []" and "sorted (stamps evs)"
  shows "recorded (run E evs (fresh this)) \<subseteq> set (stamps evs)
     \<and> sorted (timesOn (control (run E evs (fresh this))))
     \<and> sorted (timesOff (control (run E evs (fresh this))))"
  using assms(3)
proof (induction evs rule: rev_induct)
  case Nil
  show ?case using assms(1,2) by (simp add: run_Nil recorded_def fresh_def)
next
  case (snoc e evs)
  let ?w = "run E evs (fresh this)"
  show ?case
  proof (cases e)
    case (Frame ptr t)
    with snoc.prems have clock: "sorted (stamps evs)" and later: "\<forall>x \<in> set (stamps evs). x \<le> t"
      by (simp_all add: stamps_snoc sorted_snoc_real)
    from snoc.IH [OF clock]
    have ih: "recorded ?w \<subseteq> set (stamps evs)" "sorted (timesOn (control ?w))"
      "sorted (timesOff (control ?w))" by simp_all
    from ih(1) later have below: "\<forall>x \<in> recorded ?w. x \<le> t" by blast
    have "recorded (frame_update E ptr t ?w) \<subseteq> insert t (recorded ?w)"
      by (auto simp: recorded_def frame_update_def Let_def)
    with ih(1) have sub: "recorded (frame_update E ptr t ?w) \<subseteq> set (stamps evs @ [t])"
      by auto
    have "sorted (timesOn (control (frame_update E ptr t ?w)))"
      using ih(2) below by (auto simp: frame_update_def Let_def sorted_snoc_real recorded_def)
    moreover have "sorted (timesOff (control (frame_update E ptr t ?w)))"
      using ih(3) below by (auto simp: frame_update_def Let_def sorted_snoc_real recorded_def)
    ultimately show ?thesis using sub Frame by (simp add: run_snoc stamps_snoc)
  next
    case (ResetCall ptr)
    then show ?thesis by (simp add: run_snoc recorded_def reset_fields)
  qed
qed

text \<open>
  Claim C6.  For a control as constructed, after any sequence of frames and reset calls
  (the empty one, and one that ends with a reset, among them): \<^verbatim>\<open>timesOff\<close> has no
  more entries than \<^verbatim>\<open>timesOn\<close>, and \<^verbatim>\<open>timesOn\<close> at most one more than
  \<^verbatim>\<open>timesOff\<close>.  Both lists are in non-decreasing order, when the clock readings of the
  successive frames do not decrease.
\<close>
theorem click_history_bounds:
  assumes "ButtonStim_constructor E arg = Inr (this, lg)"
  shows "length (timesOff (control (run E evs (fresh this))))
           \<le> length (timesOn (control (run E evs (fresh this))))
     \<and> length (timesOn (control (run E evs (fresh this))))
           \<le> length (timesOff (control (run E evs (fresh this)))) + 1
     \<and> (sorted (stamps evs) \<longrightarrow>
          sorted (timesOn (control (run E evs (fresh this))))
          \<and> sorted (timesOff (control (run E evs (fresh this)))))"
proof -
  from constructor_Inr [OF assms]
  have empty: "timesOn this = []" "timesOff this = []" by auto
  from paired_run [OF empty, of E evs]
  have lengths: "length (timesOff (control (run E evs (fresh this))))
           \<le> length (timesOn (control (run E evs (fresh this))))"
    "length (timesOn (control (run E evs (fresh this))))
           \<le> length (timesOff (control (run E evs (fresh this)))) + 1"
    by (simp_all add: paired_def)
  have order: "sorted (timesOn (control (run E evs (fresh this))))
      \<and> sorted (timesOff (control (run E evs (fresh this))))"
    if "sorted (stamps evs)"
    using ordered_run [OF empty that, of E] by simp
  from lengths order show ?thesis by blast
qed

lemmas eval_run =
  run_def fresh_def frame_update_def reset_def super_reset_def isClicked_def isPressedIn_def
  box_label_def pointer_up_def pointer_down_def click_me_button_def Let_def

text \<open>
  At the run with a reset while the button is held: the release that follows the reset is
  not recorded, the click after it is.
\<close>
theorem click_history_bounds_witness:
  "ButtonStim_constructor box_label click_me =
     Inr (click_me_button, [Debug ''create a new Button with name: '' JUndefined])
   \<and> sorted (stamps press_reset_release)
   \<and> timesOn (control (run box_label press_reset_release (fresh click_me_button))) = [3]
   \<and> timesOff (control (run box_label press_reset_release (fresh click_me_button))) = [4]
   \<and> length (timesOff (control (run box_label press_reset_release (fresh click_me_button))))
       \<le> length (timesOn (control (run box_label press_reset_release (fresh click_me_button))))
   \<and> length (timesOn (control (run box_label press_reset_release (fresh click_me_button))))
       \<le> length (timesOff (control (run box_label press_reset_release (fresh click_me_button)))) + 1
   \<and> sorted (timesOn (control (run box_label press_reset_release (fresh click_me_button))))
   \<and> sorted (timesOff (control (run box_label press_reset_release (fresh click_me_button))))"
proof -
  have clock: "sorted (stamps press_reset_release)"
    by (simp add: press_reset_release_def)
  have history:
    "timesOn (control (run box_label press_reset_release (fresh click_me_button))) = [3]"
    "timesOff (control (run box_label press_reset_release (fresh click_me_button))) = [4]"
    by (simp_all add: press_reset_release_def eval_run)
  from click_history_bounds [OF click_me_built, of press_reset_release]
    click_me_built clock history
  show ?thesis by blast
qed

end
